theory Spec2Isabelle
  imports Main "HOL-Library.Char_ord" "HOL-Library.List_Lexorder" "HOL-Library.Sublist"
begin

text \<open>
  A model of the video analysis service of \<open>app/main.py\<close>: the job rows of
  \<open>app/models.py\<close>, the request handlers \<open>create_analysis_job\<close>, \<open>get_status\<close> and
  \<open>delete_job\<close>, the background task \<open>process_video_job\<close> with the segmentation, the
  analysis of each chunk and the report aggregator. The store, the disk and the clock
  are passed through the functions as one value; what FFmpeg, Gemini and the operating
  system answer is a parameter. Exceptions are values: a function that may raise
  returns a sum whose left part is the text of the exception.
\<close>

section \<open>Strings\<close>

text \<open>
  Python \<open>str\<close> values are modelled as \<^typ>\<open>string\<close>; the text handled here is taken
  to be ASCII. \<open>str_nat\<close> is the decimal rendering that an f-string gives a
  non-negative \<open>int\<close>, \<open>join\<close> is \<open>sep.join(xs)\<close>.
\<close>

definition digit_char :: "nat \<Rightarrow> char" where
  "digit_char d = ''0123456789'' ! d"

function str_nat :: "nat \<Rightarrow> string" where
  "str_nat n = (if n < 10 then [digit_char n] else str_nat (n div 10) @ [digit_char (n mod 10)])"
  by pat_completeness auto
termination
  by (relation "measure id") auto

declare str_nat.simps [simp del]

fun join :: "string \<Rightarrow> string list \<Rightarrow> string" where
  "join sep [] = []"
| "join sep [x] = x"
| "join sep (x # y # ys) = x @ sep @ join sep (y # ys)"

text \<open>\<open>str.isspace\<close> on ASCII, and \<open>str.strip()\<close> with no argument.\<close>

definition isspace :: "char \<Rightarrow> bool" where
  "isspace c = (let n = (of_char c :: nat) in (9 \<le> n \<and> n \<le> 13) \<or> (28 \<le> n \<and> n \<le> 32))"

definition strip :: "string \<Rightarrow> string" where
  "strip s = rev (dropWhile isspace (rev (dropWhile isspace s)))"

section \<open>The report aggregator: \<open>create_consolidated_report\<close>\<close>

text \<open>
  The generation time \<open>datetime.now().strftime('%Y-%m-%d %H:%M:%S')\<close> is read from the
  environment; the model takes the formatted text as the argument \<open>generated\<close>.
\<close>

definition report_header :: "string \<Rightarrow> nat \<Rightarrow> string" where
  "report_header generated n =
     ''\<newline>VIDEO ANALYSIS REPORT\<newline>=====================\<newline>Generated: '' @ generated @
     ''\<newline>Total Segments Analyzed: '' @ str_nat n @
     ''\<newline>\<newline>EXECUTIVE SUMMARY\<newline>=================\<newline>'' @
     ''This report contains a chronological analysis of the submitted video evidence, \<newline>'' @
     ''broken down into 5-minute segments for detailed review.\<newline>'' @
     ''\<newline>DETAILED ANALYSIS\<newline>=================\<newline>''"

definition section_text :: "nat \<Rightarrow> string \<Rightarrow> string" where
  "section_text i summary =
     ''\<newline>SEGMENT '' @ str_nat i @ '' (Minutes '' @ str_nat ((i - 1) * 5) @ ''-'' @ str_nat (i * 5) @
     '')\<newline>'' @ replicate 40 CHR ''='' @ ''\<newline>'' @ summary @ ''\<newline>''"

text \<open>The loop \<open>for i, summary in enumerate(summaries, 1)\<close>, \<open>i\<close> being the running index.\<close>

fun detailed_sections :: "nat \<Rightarrow> string list \<Rightarrow> string list" where
  "detailed_sections i [] = []"
| "detailed_sections i (summary # rest) = section_text i summary # detailed_sections (Suc i) rest"

definition report_footer :: "nat \<Rightarrow> string" where
  "report_footer n =
     ''\<newline>\<newline>CONCLUSION\<newline>==========\<newline>Analysis complete. '' @ str_nat n @
     '' video segments have been processed and summarized above.\<newline>'' @
     ''Each segment represents approximately 5 minutes of video content.\<newline>'' @
     ''\<newline>Report generated by Video Analysis Service v1.0\<newline>''"

definition create_consolidated_report :: "string \<Rightarrow> string list \<Rightarrow> string" where
  "create_consolidated_report generated summaries =
     report_header generated (length summaries) @
     join ''\<newline>'' (detailed_sections 1 summaries) @
     report_footer (length summaries)"

section \<open>Data model\<close>

type_synonym path = string

text \<open>
  A row of the \<open>jobs\<close> table (class \<open>Job\<close>). The primary key \<open>id\<close> is the field
  \<open>job_id\<close>; \<open>status\<close> is the text column the code writes
  \<open>PENDING\<close>, \<open>PROCESSING\<close>, \<open>COMPLETE\<close> and \<open>FAILED\<close> to; a nullable column is an
  option; times are readings of a logical clock.
\<close>

record job =
  job_id :: string
  status :: string
  created_at :: "nat option"
  updated_at :: "nat option"
  video_path :: path
  video_filename :: "string option"
  video_size :: "int option"
  report :: "string option"
  error :: "string option"
  chunks_processed :: int
  total_chunks :: int

datatype http_exception = HTTPException (status_code: nat) (detail: string)

text \<open>
  Everything the service reads and writes: the table (a map from id to row), the regular
  files and the directories on disk, and the clock behind \<open>datetime.utcnow\<close>. Three
  fields only record what happened: \<open>commits\<close> lists every row version in the order it
  was committed (what a polling client can observe), \<open>analysed\<close> lists the calls of the
  analysis function, \<open>background_tasks\<close> the tasks handed to FastAPI.
\<close>

record world =
  db :: "string \<rightharpoonup> job"
  files :: "path set"
  dirs :: "path set"
  clock :: nat
  commits :: "job list"
  analysed :: "(path \<times> nat) list"
  background_tasks :: "(string \<times> path) list"

text \<open>One run of the FFmpeg process: exit status, standard error, names of the files written.\<close>

record ffmpeg_run =
  returncode :: int
  stderr :: string
  written :: "string list"

text \<open>
  What lies outside the repository and decides a run: pathlib's \<open>Path(name).suffix\<close>, the
  identifier \<open>uuid.uuid4()\<close> returns, whether saving the upload fails, the text of the
  database error on a duplicate key, the FFmpeg run for an input and an output directory,
  the outcome of the Gemini request for a chunk (\<open>Inl\<close> the text of the exception,
  \<open>Inr\<close> the response text), whether writing the report file fails, the paths the
  operating system refuses to remove with the error text it gives, and the formatted
  local time.
\<close>

record env =
  path_suffix :: "string \<Rightarrow> string"
  uuid4 :: string
  save_upload_error :: "string option"
  integrity_error :: string
  ffmpeg :: "path \<Rightarrow> path \<Rightarrow> ffmpeg_run"
  gemini :: "path \<Rightarrow> string + string"
  write_report_error :: "path \<Rightarrow> string option"
  unremovable :: "path set"
  strerror :: "path \<Rightarrow> string"
  strftime_now :: string

record upload_file =
  filename :: "string option"
  content_type :: "string option"
  content :: string

record analyze_response =
  resp_jobId :: string
  resp_statusUrl :: string
  resp_filename :: "string option"
  resp_fileSize :: int

record status_response =
  st_jobId :: string
  st_status :: string
  st_created_at :: "nat option"
  st_updated_at :: "nat option"
  st_filename :: "string option"
  st_fileSize :: "int option"
  st_chunks_processed :: int
  st_total_chunks :: int
  st_report :: "string option"
  st_error :: "string option"

definition UPLOAD_DIR :: path where "UPLOAD_DIR = ''uploads''"
definition CHUNKS_DIR :: path where "CHUNKS_DIR = ''chunks''"
definition REPORTS_DIR :: path where "REPORTS_DIR = ''reports''"

section \<open>The job store\<close>

text \<open>
  The pattern \<open>db_job = db.query(Job).filter(Job.id == job_id).first()\<close>,
  \<open>if db_job:\<close> assignments, \<open>db.commit()\<close>. Nothing happens when the row is absent.
  The column \<open>updated_at\<close> has \<open>onupdate=datetime.utcnow\<close>. Store operations
  themselves are taken to succeed.
\<close>

definition update_job :: "string \<Rightarrow> (job \<Rightarrow> job) \<Rightarrow> world \<Rightarrow> world" where
  "update_job jid f w =
     (case db w jid of
        None \<Rightarrow> w
      | Some db_job \<Rightarrow>
          let row = (f db_job)\<lparr>updated_at := Some (clock w)\<rparr>
          in w\<lparr>db := (db w)(jid \<mapsto> row), clock := Suc (clock w), commits := commits w @ [row]\<rparr>)"

section \<open>The file system\<close>

definition path_exists :: "world \<Rightarrow> path \<Rightarrow> bool" where
  "path_exists w p = (p \<in> files w \<or> p \<in> dirs w)"

text \<open>
  \<open>os.remove\<close>: \<open>Inl\<close> is the text of the \<open>OSError\<close> raised (the path is no
  regular file, or the operating system refuses).
\<close>

definition os_remove :: "env \<Rightarrow> path \<Rightarrow> world \<Rightarrow> string + world" where
  "os_remove env p w =
     (if p \<in> files w \<and> p \<notin> dirs w \<and> p \<notin> unremovable env
      then Inr (w\<lparr>files := files w - {p}\<rparr>)
      else Inl (strerror env p))"

text \<open>
  \<open>shutil.rmtree\<close>: removes the directory and all below it; it raises when the path is
  not a directory or something in the tree cannot be removed (the model then leaves
  the tree as it was).
\<close>

definition below :: "path \<Rightarrow> path \<Rightarrow> bool" where
  "below d p = prefix (d @ ''/'') p"

definition rmtree :: "env \<Rightarrow> path \<Rightarrow> world \<Rightarrow> string + world" where
  "rmtree env d w =
     (if d \<in> dirs w \<and> d \<notin> files w \<and> d \<notin> unremovable env \<and>
         (\<forall>p \<in> files w \<union> dirs w. below d p \<longrightarrow> p \<notin> unremovable env)
      then Inr (w\<lparr>files := Set.filter (\<lambda>p. \<not> below d p) (files w),
                  dirs := Set.filter (\<lambda>p. \<not> below d p) (dirs w) - {d}\<rparr>)
      else Inl (strerror env d))"

text \<open>\<open>sorted(chunk_dir.glob('chunk_*.mp4'))\<close>: the matching files directly in the directory.\<close>

definition chunk_name :: "string \<Rightarrow> bool" where
  "chunk_name name = (CHR ''/'' \<notin> set name \<and> 10 \<le> length name \<and>
     prefix ''chunk_'' name \<and> suffix ''.mp4'' name)"

definition glob_chunks :: "path \<Rightarrow> world \<Rightarrow> path list" where
  "glob_chunks chunk_dir w =
     sorted_list_of_set
       (Set.filter (\<lambda>p. below chunk_dir p \<and> chunk_name (drop (length chunk_dir + 1) p)) (files w))"

section \<open>Segmentation: \<open>chunk_video_with_ffmpeg\<close>\<close>

text \<open>
  The chunk directory is made, FFmpeg runs (\<open>check=True\<close>: a non-zero exit raises
  \<open>CalledProcessError\<close>, re-raised with the text below), and the chunk files found
  are returned in sorted order. \<open>Inl\<close> is the text of the exception.
\<close>

definition chunk_video_with_ffmpeg ::
  "env \<Rightarrow> string \<Rightarrow> path \<Rightarrow> world \<Rightarrow> (string + path list) \<times> world" where
  "chunk_video_with_ffmpeg env jid video w =
     (let chunk_dir = CHUNKS_DIR @ ''/'' @ jid;
          w1 = w\<lparr>dirs := insert chunk_dir (dirs w)\<rparr>;
          run = ffmpeg env video chunk_dir;
          w2 = w1\<lparr>files := files w1 \<union> (\<lambda>name. chunk_dir @ ''/'' @ name) ` set (written run)\<rparr>
      in if returncode run \<noteq> 0 then (Inl (''Failed to chunk video: '' @ stderr run), w2)
         else (Inr (glob_chunks chunk_dir w2), w2))"

section \<open>Analysis of one chunk: \<open>analyze_video_chunk_with_gemini\<close>\<close>

definition analyze_video_chunk_with_gemini ::
  "env \<Rightarrow> path \<Rightarrow> nat \<Rightarrow> world \<Rightarrow> (string + string) \<times> world" where
  "analyze_video_chunk_with_gemini env chunk_path chunk_number w =
     (let w1 = w\<lparr>analysed := analysed w @ [(chunk_path, chunk_number)]\<rparr>
      in case gemini env chunk_path of
           Inl e \<Rightarrow>
             (Inl (''Failed to analyze chunk '' @ str_nat chunk_number @ '': '' @ e), w1)
         | Inr summary \<Rightarrow> (Inr (strip summary), w1))"

section \<open>The background task: \<open>process_video_job\<close>\<close>

text \<open>
  The loop \<open>for i, chunk_path in enumerate(chunk_paths)\<close> with its inner
  \<open>try\<close>/\<open>except\<close>: \<open>i\<close> is the index of the chunk at the head of the list.
\<close>

fun process_chunks ::
  "env \<Rightarrow> string \<Rightarrow> nat \<Rightarrow> path list \<Rightarrow> string list \<Rightarrow> world \<Rightarrow> string list \<times> world" where
  "process_chunks env jid i [] summaries w = (summaries, w)"
| "process_chunks env jid i (chunk_path # rest) summaries w =
     (case analyze_video_chunk_with_gemini env chunk_path (i + 1) w of
        (Inr summary, w1) \<Rightarrow>
          process_chunks env jid (i + 1) rest (summaries @ [summary])
            (update_job jid (\<lambda>j. j\<lparr>chunks_processed := int (i + 1)\<rparr>) w1)
      | (Inl e, w1) \<Rightarrow>
          process_chunks env jid (i + 1) rest
            (summaries @ [''Error processing chunk '' @ str_nat (i + 1) @ '': '' @ e]) w1)"

text \<open>The cleanup loop: each \<open>os.remove\<close> is tried, its error swallowed.\<close>

fun cleanup_chunks :: "env \<Rightarrow> path list \<Rightarrow> world \<Rightarrow> world" where
  "cleanup_chunks env [] w = w"
| "cleanup_chunks env (chunk_path # rest) w =
     cleanup_chunks env rest (case os_remove env chunk_path w of Inr w' \<Rightarrow> w' | Inl e \<Rightarrow> w)"

text \<open>
  The body of the outer \<open>try\<close>: \<open>Inr\<close> when it runs to its end, \<open>Inl\<close> with the text of
  the exception and the world at the moment it is raised. A failure to write the report
  file is modelled as the \<open>open\<close> failing.
\<close>

definition process_video_job_try ::
  "env \<Rightarrow> string \<Rightarrow> path \<Rightarrow> world \<Rightarrow> (string \<times> world) + world" where
  "process_video_job_try env jid video w =
     (let w1 = update_job jid (\<lambda>j. j\<lparr>status := ''PROCESSING''\<rparr>) w
      in case chunk_video_with_ffmpeg env jid video w1 of
           (Inl e, w2) \<Rightarrow> Inl (e, w2)
         | (Inr chunk_paths, w2) \<Rightarrow>
             (if chunk_paths = [] then Inl (''No video chunks were created'', w2)
              else
                (let w3 = update_job jid (\<lambda>j. j\<lparr>total_chunks := int (length chunk_paths)\<rparr>) w2;
                     (summaries, w4) = process_chunks env jid 0 chunk_paths [] w3;
                     final_report = create_consolidated_report (strftime_now env) summaries;
                     report_path = REPORTS_DIR @ ''/'' @ jid @ ''_report.txt''
                 in (case write_report_error env report_path of
                       Some e \<Rightarrow> Inl (e, w4)
                     | None \<Rightarrow>
                         (let w5 = w4\<lparr>files := insert report_path (files w4)\<rparr>;
                              w6 = update_job jid
                                     (\<lambda>j. j\<lparr>status := ''COMPLETE'',
                                            report := Some final_report,
                                            chunks_processed := int (length chunk_paths)\<rparr>) w5
                          in Inr (cleanup_chunks env chunk_paths w6))))))"

definition process_video_job :: "env \<Rightarrow> string \<Rightarrow> path \<Rightarrow> world \<Rightarrow> world" where
  "process_video_job env jid video w =
     (case process_video_job_try env jid video w of
        Inr w' \<Rightarrow> w'
      | Inl (e, w') \<Rightarrow> update_job jid (\<lambda>j. j\<lparr>status := ''FAILED'', error := Some e\<rparr>) w')"

section \<open>The request handlers\<close>

definition lower :: "string \<Rightarrow> string" where
  "lower s = map (\<lambda>c. if CHR ''A'' \<le> c \<and> c \<le> CHR ''Z'' then char_of (of_char c + (32::nat)) else c) s"

definition valid_video_extensions :: "string set" where
  "valid_video_extensions =
     {''.mp4'', ''.avi'', ''.mov'', ''.mkv'', ''.wmv'', ''.flv'', ''.webm'', ''.m4v''}"

text \<open>
  \<open>create_analysis_job\<close>: validation, a new id, the upload saved (\<open>file_size\<close> is the
  number of bytes written), the row inserted (a duplicate key makes the insert fail),
  the background task scheduled.
\<close>

definition create_analysis_job ::
  "env \<Rightarrow> upload_file \<Rightarrow> world \<Rightarrow> (http_exception + analyze_response) \<times> world" where
  "create_analysis_job env file w =
     (let has_name = (case filename file of None \<Rightarrow> False | Some n \<Rightarrow> n \<noteq> []);
          file_extension = (if has_name then lower (path_suffix env (the (filename file))) else []);
          is_video_by_content =
            (case content_type file of None \<Rightarrow> False | Some t \<Rightarrow> t \<noteq> [] \<and> prefix ''video/'' t);
          is_video_by_extension = (file_extension \<in> valid_video_extensions)
      in if \<not> (is_video_by_content \<or> is_video_by_extension) then
           (Inl (HTTPException 400
                  (''Only video files are allowed. Got content-type: '' @
                   (case content_type file of None \<Rightarrow> ''None'' | Some t \<Rightarrow> t) @
                   '', extension: '' @ file_extension)), w)
         else
           let jid = uuid4 env;
               file_extension = (if has_name then path_suffix env (the (filename file)) else ''.mp4'');
               save_path = UPLOAD_DIR @ ''/'' @ jid @ file_extension
           in case save_upload_error env of
                Some e \<Rightarrow> (Inl (HTTPException 500 (''Failed to save file: '' @ e)), w)
              | None \<Rightarrow>
                  let file_size = int (length (content file));
                      w1 = w\<lparr>files := insert save_path (files w)\<rparr>;
                      db_job = \<lparr>job_id = jid, status = ''PENDING'',
                                created_at = Some (clock w1), updated_at = Some (clock w1),
                                video_path = save_path, video_filename = filename file,
                                video_size = Some file_size, report = None, error = None,
                                chunks_processed = 0, total_chunks = 0\<rparr>
                  in if db w1 jid \<noteq> None then
                       (Inl (HTTPException 500
                              (''Failed to create job record: '' @ integrity_error env)), w1)
                     else
                       (Inr \<lparr>resp_jobId = jid,
                             resp_statusUrl = ''/v1/analyze/status/'' @ jid,
                             resp_filename = filename file,
                             resp_fileSize = file_size\<rparr>,
                        w1\<lparr>db := (db w1)(jid \<mapsto> db_job), clock := Suc (clock w1),
                           commits := commits w1 @ [db_job],
                           background_tasks := background_tasks w1 @ [(jid, save_path)]\<rparr>))"

text \<open>\<open>get_status\<close>: the report and the error are in the response only under their status.\<close>

definition get_status :: "string \<Rightarrow> world \<Rightarrow> http_exception + status_response" where
  "get_status jid w =
     (case db w jid of
        None \<Rightarrow> Inl (HTTPException 404 ''Job not found'')
      | Some db_job \<Rightarrow>
          Inr \<lparr>st_jobId = jid, st_status = status db_job,
               st_created_at = created_at db_job, st_updated_at = updated_at db_job,
               st_filename = video_filename db_job, st_fileSize = video_size db_job,
               st_chunks_processed = chunks_processed db_job,
               st_total_chunks = total_chunks db_job,
               st_report = (if status db_job = ''COMPLETE'' \<and> report db_job \<noteq> None \<and>
                               report db_job \<noteq> Some [] then report db_job else None),
               st_error = (if status db_job = ''FAILED'' \<and> error db_job \<noteq> None \<and>
                              error db_job \<noteq> Some [] then error db_job else None)\<rparr>)"

text \<open>
  \<open>delete_job\<close>: the three removals inside the \<open>try\<close>, each of which may raise (\<open>Inl\<close>
  with the text of the exception and the world at that moment: what was removed stays
  removed); then the row is deleted. Any exception rolls back and gives a 500 response,
  the row kept.
\<close>

definition delete_job_files ::
  "env \<Rightarrow> string \<Rightarrow> job \<Rightarrow> world \<Rightarrow> (string \<times> world) + world" where
  "delete_job_files env jid db_job w =
     (case (if video_path db_job \<noteq> [] \<and> path_exists w (video_path db_job)
            then os_remove env (video_path db_job) w else Inr w) of
        Inl e \<Rightarrow> Inl (e, w)
      | Inr w1 \<Rightarrow>
          (let report_path = REPORTS_DIR @ ''/'' @ jid @ ''_report.txt''
           in (case (if path_exists w1 report_path then os_remove env report_path w1 else Inr w1) of
                 Inl e \<Rightarrow> Inl (e, w1)
               | Inr w2 \<Rightarrow>
                   (let chunk_dir = CHUNKS_DIR @ ''/'' @ jid
                    in if path_exists w2 chunk_dir
                       then (case rmtree env chunk_dir w2 of
                               Inl e \<Rightarrow> Inl (e, w2)
                             | Inr w3 \<Rightarrow> Inr w3)
                       else Inr w2))))"

definition delete_job :: "env \<Rightarrow> string \<Rightarrow> world \<Rightarrow> (http_exception + string) \<times> world" where
  "delete_job env jid w =
     (case db w jid of
        None \<Rightarrow> (Inl (HTTPException 404 ''Job not found''), w)
      | Some db_job \<Rightarrow>
          (case delete_job_files env jid db_job w of
             Inl (e, w') \<Rightarrow> (Inl (HTTPException 500 (''Failed to delete job: '' @ e)), w')
           | Inr w' \<Rightarrow>
               (Inr (''Job '' @ jid @ '' deleted successfully''), w'\<lparr>db := (db w')(jid := None)\<rparr>)))"

section \<open>Notions used in the statements and proofs\<close>

text \<open>
  The summary the loop of \<open>process_video_job\<close> appends for each chunk, the first chunk
  having index \<open>i\<close>: the stripped response, or the placeholder built from the exception.
\<close>

fun chunk_summaries :: "env \<Rightarrow> nat \<Rightarrow> path list \<Rightarrow> string list" where
  "chunk_summaries env i [] = []"
| "chunk_summaries env i (c # cs) =
     (case gemini env c of
        Inl e \<Rightarrow> ''Error processing chunk '' @ str_nat (i + 1) @ '': '' @
                 ''Failed to analyze chunk '' @ str_nat (i + 1) @ '': '' @ e
      | Inr s \<Rightarrow> strip s) # chunk_summaries env (i + 1) cs"

text \<open>
  The values of \<open>chunks_processed\<close> that the loop commits, in order: one for each chunk
  whose analysis succeeds, none for a chunk whose analysis fails.
\<close>

fun progress_commits :: "env \<Rightarrow> nat \<Rightarrow> path list \<Rightarrow> int list" where
  "progress_commits env i [] = []"
| "progress_commits env i (c # cs) =
     (case gemini env c of
        Inl e \<Rightarrow> progress_commits env (i + 1) cs
      | Inr s \<Rightarrow> int (i + 1) # progress_commits env (i + 1) cs)"

text \<open>
  A row \<open>r\<close> committed while the job \<open>j\<close> is being processed: it is \<open>j\<close> with the status
  \<open>PROCESSING\<close> and its own counters and update time, the total is set, and the
  progress counter is either still that of \<open>j\<close> or a position within the total.
\<close>

definition processing_row :: "job \<Rightarrow> job \<Rightarrow> bool" where
  "processing_row j r =
     (r = j\<lparr>status := ''PROCESSING'', total_chunks := total_chunks r,
            chunks_processed := chunks_processed r, updated_at := updated_at r\<rparr> \<and>
      0 < total_chunks r \<and>
      (chunks_processed r = chunks_processed j \<or>
       0 < chunks_processed r \<and> chunks_processed r \<le> total_chunks r))"

text \<open>
  The versions of a job's row that can be observed over one run of the background task
  started in the world \<open>w\<close> and ended in \<open>w'\<close>: the row as it stood, then every row
  committed since.
\<close>

definition observed :: "job \<Rightarrow> world \<Rightarrow> world \<Rightarrow> job list" where
  "observed j w w' = j # drop (length (commits w)) (commits w')"

section \<open>A worked example\<close>

text \<open>
  One upload, \<open>clip.mp4\<close>, accepted into an empty store as job \<open>job-1\<close>. FFmpeg cuts it
  into three chunks; the analysis of the second chunk fails, the other two succeed.
\<close>

definition example_env :: env where
  "example_env =
     \<lparr>path_suffix = (\<lambda>name. ''.mp4''), uuid4 = ''job-1'', save_upload_error = None,
      integrity_error = ''UNIQUE constraint failed: jobs.id'',
      ffmpeg = (\<lambda>video chunk_dir.
         \<lparr>returncode = 0, stderr = [],
          written = [''chunk_000.mp4'', ''chunk_001.mp4'', ''chunk_002.mp4'']\<rparr>),
      gemini = (\<lambda>chunk_path.
         if chunk_path = ''chunks/job-1/chunk_001.mp4'' then Inl ''deadline exceeded''
         else Inr '' A car stops. ''),
      write_report_error = (\<lambda>report_path. None), unremovable = {},
      strerror = (\<lambda>p. ''Permission denied''), strftime_now = ''2026-01-01 10:00:00''\<rparr>"

definition example_upload :: upload_file where
  "example_upload = \<lparr>filename = Some ''clip.mp4'', content_type = Some ''video/mp4'', content = ''abc''\<rparr>"

definition example_start :: world where
  "example_start =
     \<lparr>db = Map.empty, files = {}, dirs = {''uploads'', ''chunks'', ''reports''}, clock = 0,
      commits = [], analysed = [], background_tasks = []\<rparr>"

definition example_job :: job where
  "example_job =
     \<lparr>job_id = ''job-1'', status = ''PENDING'', created_at = Some 0, updated_at = Some 0,
      video_path = ''uploads/job-1.mp4'', video_filename = Some ''clip.mp4'',
      video_size = Some 3, report = None, error = None,
      chunks_processed = 0, total_chunks = 0\<rparr>"

definition example_world :: world where
  "example_world = snd (create_analysis_job example_env example_upload example_start)"

text \<open>
  The store and the disk once that job is complete: the row, the upload, the report
  file and the emptied chunk directory.
\<close>

definition example_done :: world where
  "example_done =
     \<lparr>db = [''job-1'' \<mapsto>
             example_job\<lparr>status := ''COMPLETE'', updated_at := Some 6,
                          report := Some ''VIDEO ANALYSIS REPORT'',
                          chunks_processed := 3, total_chunks := 3\<rparr>],
      files = {''uploads/job-1.mp4'', ''reports/job-1_report.txt''},
      dirs = {''uploads'', ''chunks'', ''reports'', ''chunks/job-1''}, clock = 7,
      commits = [], analysed = [], background_tasks = []\<rparr>"

section \<open>Properties of the aggregator\<close>



section \<open>The store, the file system and the loop\<close>

lemma update_job_present:
  "db w jid = Some j \<Longrightarrow>
   update_job jid f w =
     w\<lparr>db := (db w)(jid \<mapsto> (f j)\<lparr>updated_at := Some (clock w)\<rparr>),
       clock := Suc (clock w),
       commits := commits w @ [(f j)\<lparr>updated_at := Some (clock w)\<rparr>]\<rparr>"
  by (simp add: update_job_def Let_def)

lemma update_job_absent: "db w jid = None \<Longrightarrow> update_job jid f w = w"
  by (simp add: update_job_def)

lemma update_job_frame:
  "files (update_job jid f w) = files w"
  "dirs (update_job jid f w) = dirs w"
  "analysed (update_job jid f w) = analysed w"
  "background_tasks (update_job jid f w) = background_tasks w"
  by (simp_all add: update_job_def Let_def split: option.splits)

lemma chunk_video_frame:
  "db (snd (chunk_video_with_ffmpeg env jid video w)) = db w"
  "commits (snd (chunk_video_with_ffmpeg env jid video w)) = commits w"
  "clock (snd (chunk_video_with_ffmpeg env jid video w)) = clock w"
  "analysed (snd (chunk_video_with_ffmpeg env jid video w)) = analysed w"
  by (simp_all add: chunk_video_with_ffmpeg_def Let_def)

lemma chunk_video_fst_files:
  "files w' = files w \<Longrightarrow>
   fst (chunk_video_with_ffmpeg env jid video w') = fst (chunk_video_with_ffmpeg env jid video w)"
  by (simp add: chunk_video_with_ffmpeg_def Let_def glob_chunks_def)

lemma analyze_frame:
  "db (snd (analyze_video_chunk_with_gemini env c n w)) = db w"
  "commits (snd (analyze_video_chunk_with_gemini env c n w)) = commits w"
  "files (snd (analyze_video_chunk_with_gemini env c n w)) = files w"
  "dirs (snd (analyze_video_chunk_with_gemini env c n w)) = dirs w"
  "analysed (snd (analyze_video_chunk_with_gemini env c n w)) = analysed w @ [(c, n)]"
  by (simp_all add: analyze_video_chunk_with_gemini_def Let_def split: sum.splits)

lemma process_chunks_files:
  "files (snd (process_chunks env jid i cs summaries w)) = files w \<and>
   dirs (snd (process_chunks env jid i cs summaries w)) = dirs w"
proof (induction cs arbitrary: i summaries w)
  case Nil
  show ?case by simp
next
  case (Cons c cs)
  show ?case
    by (cases "gemini env c")
       (simp_all add: Cons.IH analyze_video_chunk_with_gemini_def Let_def update_job_frame)
qed

lemma process_chunks_rows:
  "db w jid = Some j \<Longrightarrow>
   \<exists>rs. commits (snd (process_chunks env jid i cs summaries w)) = commits w @ rs \<and>
        db (snd (process_chunks env jid i cs summaries w)) jid = Some (last (j # rs)) \<and>
        (\<forall>r \<in> set rs.
           r = j\<lparr>chunks_processed := chunks_processed r, updated_at := updated_at r\<rparr> \<and>
           int i < chunks_processed r \<and> chunks_processed r \<le> int (i + length cs))"
proof (induction cs arbitrary: i summaries w j)
  case Nil
  then show ?case by simp
next
  case (Cons c cs)
  let ?w1 = "w\<lparr>analysed := analysed w @ [(c, i + 1)]\<rparr>"
  show ?case
  proof (cases "gemini env c")
    case (Inl e)
    have step: "process_chunks env jid i (c # cs) summaries w =
      process_chunks env jid (i + 1) cs
        (summaries @ [''Error processing chunk '' @ str_nat (i + 1) @ '': '' @
           ''Failed to analyze chunk '' @ str_nat (i + 1) @ '': '' @ e]) ?w1"
      using Inl by (simp add: analyze_video_chunk_with_gemini_def Let_def)
    have "db ?w1 jid = Some j" using Cons.prems by simp
    from Cons.IH [OF this, of "i + 1"] obtain rs where
      "commits (snd (process_chunks env jid (i + 1) cs
        (summaries @ [''Error processing chunk '' @ str_nat (i + 1) @ '': '' @
           ''Failed to analyze chunk '' @ str_nat (i + 1) @ '': '' @ e]) ?w1)) = commits ?w1 @ rs"
      "db (snd (process_chunks env jid (i + 1) cs
        (summaries @ [''Error processing chunk '' @ str_nat (i + 1) @ '': '' @
           ''Failed to analyze chunk '' @ str_nat (i + 1) @ '': '' @ e]) ?w1)) jid = Some (last (j # rs))"
      "\<forall>r \<in> set rs.
           r = j\<lparr>chunks_processed := chunks_processed r, updated_at := updated_at r\<rparr> \<and>
           int (i + 1) < chunks_processed r \<and> chunks_processed r \<le> int (i + 1 + length cs)"
      by blast
    then show ?thesis
      unfolding step by (intro exI [of _ rs]) auto
  next
    case (Inr s)
    let ?j2 = "j\<lparr>chunks_processed := int (i + 1), updated_at := Some (clock w)\<rparr>"
    let ?w2 = "update_job jid (\<lambda>j. j\<lparr>chunks_processed := int (i + 1)\<rparr>) ?w1"
    have step: "process_chunks env jid i (c # cs) summaries w =
      process_chunks env jid (i + 1) cs (summaries @ [strip s]) ?w2"
      using Inr by (simp add: analyze_video_chunk_with_gemini_def Let_def)
    have w1: "db ?w1 jid = Some j" using Cons.prems by simp
    have c2: "commits ?w2 = commits w @ [?j2]" and d2: "db ?w2 jid = Some ?j2"
      using w1 by (simp_all add: update_job_def Let_def)
    from Cons.IH [OF d2, of "i + 1" "summaries @ [strip s]"] obtain rs where rs:
      "commits (snd (process_chunks env jid (i + 1) cs (summaries @ [strip s]) ?w2)) = commits ?w2 @ rs"
      "db (snd (process_chunks env jid (i + 1) cs (summaries @ [strip s]) ?w2)) jid = Some (last (?j2 # rs))"
      "\<forall>r \<in> set rs.
           r = ?j2\<lparr>chunks_processed := chunks_processed r, updated_at := updated_at r\<rparr> \<and>
           int (i + 1) < chunks_processed r \<and> chunks_processed r \<le> int (i + 1 + length cs)"
      by blast
    show ?thesis
      unfolding step
    proof (intro exI [of _ "?j2 # rs"] conjI ballI)
      show "commits (snd (process_chunks env jid (i + 1) cs (summaries @ [strip s]) ?w2)) = commits w @ ?j2 # rs"
        using rs(1) c2 by simp
      show "db (snd (process_chunks env jid (i + 1) cs (summaries @ [strip s]) ?w2)) jid = Some (last (j # ?j2 # rs))"
        using rs(2) by simp
    next
      fix r assume "r \<in> set (?j2 # rs)"
      then consider "r = ?j2" | "r \<in> set rs" by auto
      then have "r = j\<lparr>chunks_processed := chunks_processed r, updated_at := updated_at r\<rparr> \<and>
        int i < chunks_processed r \<and> chunks_processed r \<le> int (i + length (c # cs))"
      proof cases
        case 1
        then show ?thesis by simp
      next
        case 2
        with rs(3) have r: "r = ?j2\<lparr>chunks_processed := chunks_processed r, updated_at := updated_at r\<rparr>"
          "int (i + 1) < chunks_processed r" "chunks_processed r \<le> int (i + 1 + length cs)"
          by blast+
        from r(1) have "r = j\<lparr>chunks_processed := chunks_processed r, updated_at := updated_at r\<rparr>"
          by simp
        with r(2,3) show ?thesis by simp
      qed
      then show "r = j\<lparr>chunks_processed := chunks_processed r, updated_at := updated_at r\<rparr>"
        "int i < chunks_processed r" "chunks_processed r \<le> int (i + length (c # cs))"
        by blast+
    qed
  qed
qed


lemma os_remove_frame:
  "os_remove env p w = Inr w' \<Longrightarrow>
   db w' = db w \<and> commits w' = commits w \<and> dirs w' = dirs w \<and> analysed w' = analysed w \<and>
   files w' = files w - {p}"
  by (auto simp: os_remove_def split: if_splits)

lemma cleanup_chunks_frame:
  "db (cleanup_chunks env cs w) = db w \<and> commits (cleanup_chunks env cs w) = commits w \<and>
   dirs (cleanup_chunks env cs w) = dirs w \<and> analysed (cleanup_chunks env cs w) = analysed w"
proof (induction cs arbitrary: w)
  case Nil
  show ?case by simp
next
  case (Cons c cs)
  show ?case
    by (cases "os_remove env c w") (simp_all add: Cons.IH os_remove_frame)
qed

lemma process_video_job_try_rows:
  assumes j: "db w jid = Some j"
  defines "j1 \<equiv> j\<lparr>status := ''PROCESSING'', updated_at := Some (clock w)\<rparr>"
  shows "case process_video_job_try env jid video w of
           Inl (e, w') \<Rightarrow>
             \<exists>mid. commits w' = commits w @ j1 # mid \<and> db w' jid = Some (last (j1 # mid)) \<and>
                   (\<forall>r \<in> set mid. processing_row j r)
         | Inr w' \<Rightarrow>
             \<exists>mid fin. commits w' = commits w @ j1 # mid @ [fin] \<and> db w' jid = Some fin \<and>
                   mid \<noteq> [] \<and> (\<forall>r \<in> set mid. processing_row j r) \<and>
                   (\<exists>rep t. fin = (last mid)\<lparr>status := ''COMPLETE'', report := Some rep,
                        chunks_processed := total_chunks (last mid), updated_at := t\<rparr>)"
proof -
  let ?w1 = "update_job jid (\<lambda>j. j\<lparr>status := ''PROCESSING''\<rparr>) w"
  have c1: "commits ?w1 = commits w @ [j1]" and d1: "db ?w1 jid = Some j1"
    using j by (simp_all add: update_job_def Let_def j1_def)
  obtain r w2 where cv: "chunk_video_with_ffmpeg env jid video ?w1 = (r, w2)"
    by fastforce
  have c2: "commits w2 = commits w @ [j1]" and d2: "db w2 jid = Some j1"
    using chunk_video_frame(1,2) [of env jid video ?w1] cv c1 d1 by simp_all
  show ?thesis
  proof (cases r)
    case (Inl e)
    then have "process_video_job_try env jid video w = Inl (e, w2)"
      using cv by (simp add: process_video_job_try_def Let_def)
    then show ?thesis using c2 d2 by simp
  next
    case (Inr cs)
    show ?thesis
    proof (cases "cs = []")
      case True
      then have "process_video_job_try env jid video w = Inl (''No video chunks were created'', w2)"
        using cv Inr by (simp add: process_video_job_try_def Let_def)
      then show ?thesis using c2 d2 by simp
    next
      case False
      let ?n = "int (length cs)"
      let ?w3 = "update_job jid (\<lambda>j. j\<lparr>total_chunks := ?n\<rparr>) w2"
      let ?j3 = "j1\<lparr>total_chunks := ?n, updated_at := Some (clock w2)\<rparr>"
      have c3: "commits ?w3 = commits w @ [j1, ?j3]" and d3: "db ?w3 jid = Some ?j3"
        using c2 d2 by (simp_all add: update_job_def Let_def)
      obtain summaries w4 where pc: "process_chunks env jid 0 cs [] ?w3 = (summaries, w4)"
        by fastforce
      from process_chunks_rows [OF d3, of env 0 cs "[]"] pc obtain rs where
        c4: "commits w4 = commits ?w3 @ rs" and d4: "db w4 jid = Some (last (?j3 # rs))"
        and rs: "\<forall>r \<in> set rs.
           r = ?j3\<lparr>chunks_processed := chunks_processed r, updated_at := updated_at r\<rparr> \<and>
           0 < chunks_processed r \<and> chunks_processed r \<le> ?n"
        by auto
      have pos: "0 < ?n" using False by simp
      have j3row: "processing_row j ?j3"
        using pos by (simp add: processing_row_def j1_def)
      have rsrow: "processing_row j r" if "r \<in> set rs" for r
      proof -
        from rs that have r: "r = ?j3\<lparr>chunks_processed := chunks_processed r, updated_at := updated_at r\<rparr>"
          and b: "0 < chunks_processed r" "chunks_processed r \<le> ?n" by blast+
        have t: "total_chunks r = ?n" by (subst r) simp
        have "r = j\<lparr>status := ''PROCESSING'', total_chunks := ?n,
            chunks_processed := chunks_processed r, updated_at := updated_at r\<rparr>"
          by (subst r) (simp add: j1_def)
        with b t pos show ?thesis by (simp add: processing_row_def)
      qed
      have mid: "\<forall>r \<in> set (?j3 # rs). processing_row j r"
        using j3row rsrow by simp
      have tot: "total_chunks (last (?j3 # rs)) = ?n"
      proof (cases "rs = []")
        case True
        then show ?thesis by simp
      next
        case False
        then have "last rs \<in> set rs" by simp
        with rs have e: "last rs = ?j3\<lparr>chunks_processed := chunks_processed (last rs),
            updated_at := updated_at (last rs)\<rparr>" by blast
        have "total_chunks (last rs) = ?n" by (subst e) simp
        with False show ?thesis by simp
      qed
      let ?rp = "REPORTS_DIR @ ''/'' @ jid @ ''_report.txt''"
      show ?thesis
      proof (cases "write_report_error env ?rp")
        case (Some e)
        then have "process_video_job_try env jid video w = Inl (e, w4)"
          using cv Inr False pc by (simp add: process_video_job_try_def Let_def)
        moreover have "commits w4 = commits w @ j1 # (?j3 # rs)" using c4 c3 by simp
        moreover have "db w4 jid = Some (last (j1 # (?j3 # rs)))" using d4 by simp
        ultimately show ?thesis using mid by (simp del: set_simps last.simps)
      next
        case None
        let ?rep = "create_consolidated_report (strftime_now env) summaries"
        let ?w5 = "w4\<lparr>files := insert ?rp (files w4)\<rparr>"
        let ?w6 = "update_job jid (\<lambda>j. j\<lparr>status := ''COMPLETE'', report := Some ?rep,
                      chunks_processed := ?n\<rparr>) ?w5"
        let ?fin = "(last (?j3 # rs))\<lparr>status := ''COMPLETE'', report := Some ?rep,
                      chunks_processed := ?n, updated_at := Some (clock w4)\<rparr>"
        have eq: "process_video_job_try env jid video w = Inr (cleanup_chunks env cs ?w6)"
          using cv Inr False pc None by (simp add: process_video_job_try_def Let_def)
        have c6: "commits ?w6 = commits w @ j1 # (?j3 # rs) @ [?fin]" and d6: "db ?w6 jid = Some ?fin"
          using c4 c3 d4 by (simp_all add: update_job_def Let_def del: last.simps)
        have "\<exists>rep t. ?fin = (last (?j3 # rs))\<lparr>status := ''COMPLETE'', report := Some rep,
                        chunks_processed := total_chunks (last (?j3 # rs)), updated_at := t\<rparr>"
          unfolding tot by blast
        then show ?thesis
          unfolding eq using c6 d6 mid cleanup_chunks_frame [of env cs ?w6]
          by (simp del: set_simps last.simps)
      qed
    qed
  qed
qed


lemma process_video_job_rows:
  assumes j: "db w jid = Some j"
  defines "j1 \<equiv> j\<lparr>status := ''PROCESSING'', updated_at := Some (clock w)\<rparr>"
  shows "\<exists>mid fin.
           commits (process_video_job env jid video w) = commits w @ j1 # mid @ [fin] \<and>
           db (process_video_job env jid video w) jid = Some fin \<and>
           (\<forall>r \<in> set mid. processing_row j r) \<and>
           ((\<exists>e t. fin = (last (j1 # mid))\<lparr>status := ''FAILED'', error := Some e, updated_at := t\<rparr>) \<or>
            mid \<noteq> [] \<and>
            (\<exists>rep t. fin = (last mid)\<lparr>status := ''COMPLETE'', report := Some rep,
                 chunks_processed := total_chunks (last mid), updated_at := t\<rparr>))"
proof (cases "process_video_job_try env jid video w")
  case (Inl a)
  obtain e w' where a: "a = (e, w')" by (cases a)
  from process_video_job_try_rows [OF j, of env video] Inl a obtain mid where
    c: "commits w' = commits w @ j1 # mid" and d: "db w' jid = Some (last (j1 # mid))"
    and m: "\<forall>r \<in> set mid. processing_row j r"
    by (auto simp: j1_def)
  let ?fin = "(last (j1 # mid))\<lparr>status := ''FAILED'', error := Some e, updated_at := Some (clock w')\<rparr>"
  have eq: "process_video_job env jid video w =
      update_job jid (\<lambda>j. j\<lparr>status := ''FAILED'', error := Some e\<rparr>) w'"
    using Inl a by (simp add: process_video_job_def)
  have "commits (process_video_job env jid video w) = commits w @ j1 # mid @ [?fin]"
    and "db (process_video_job env jid video w) jid = Some ?fin"
    unfolding eq using c d by (simp_all add: update_job_def Let_def del: last.simps)
  with m show ?thesis by blast
next
  case (Inr w')
  then have eq: "process_video_job env jid video w = w'"
    by (simp add: process_video_job_def)
  from process_video_job_try_rows [OF j, of env video] Inr show ?thesis
    unfolding eq j1_def by (simp del: last.simps) blast
qed

lemma observed_shape:
  assumes j: "db w jid = Some j"
  shows "\<exists>mid fin.
           observed j w (process_video_job env jid video w) =
             j # j\<lparr>status := ''PROCESSING'', updated_at := Some (clock w)\<rparr> # mid @ [fin] \<and>
           db (process_video_job env jid video w) jid = Some fin \<and>
           (\<forall>r \<in> set mid. processing_row j r) \<and>
           ((\<exists>e t. fin = (last (j\<lparr>status := ''PROCESSING'', updated_at := Some (clock w)\<rparr> # mid))
                      \<lparr>status := ''FAILED'', error := Some e, updated_at := t\<rparr>) \<or>
            mid \<noteq> [] \<and>
            (\<exists>rep t. fin = (last mid)\<lparr>status := ''COMPLETE'', report := Some rep,
                 chunks_processed := total_chunks (last mid), updated_at := t\<rparr>))"
proof -
  from process_video_job_rows [OF j, of env video] obtain mid fin where
    c: "commits (process_video_job env jid video w) =
          commits w @ j\<lparr>status := ''PROCESSING'', updated_at := Some (clock w)\<rparr> # mid @ [fin]"
    and rest: "db (process_video_job env jid video w) jid = Some fin"
      "\<forall>r \<in> set mid. processing_row j r"
      "(\<exists>e t. fin = (last (j\<lparr>status := ''PROCESSING'', updated_at := Some (clock w)\<rparr> # mid))
                      \<lparr>status := ''FAILED'', error := Some e, updated_at := t\<rparr>) \<or>
            mid \<noteq> [] \<and>
            (\<exists>rep t. fin = (last mid)\<lparr>status := ''COMPLETE'', report := Some rep,
                 chunks_processed := total_chunks (last mid), updated_at := t\<rparr>)"
    by blast
  have "observed j w (process_video_job env jid video w) =
      j # j\<lparr>status := ''PROCESSING'', updated_at := Some (clock w)\<rparr> # mid @ [fin]"
    by (simp add: observed_def c)
  with rest show ?thesis by blast
qed


lemma processing_row_fields:
  assumes "processing_row j r"
  shows "status r = ''PROCESSING''" "report r = report j" "error r = error j"
    "job_id r = job_id j" "video_path r = video_path j" "created_at r = created_at j"
    "video_filename r = video_filename j" "video_size r = video_size j"
proof -
  from assms have eq: "r = j\<lparr>status := ''PROCESSING'', total_chunks := total_chunks r,
            chunks_processed := chunks_processed r, updated_at := updated_at r\<rparr>"
    by (simp add: processing_row_def)
  show "status r = ''PROCESSING''" by (subst eq) simp
  show "report r = report j" by (subst eq) simp
  show "error r = error j" by (subst eq) simp
  show "job_id r = job_id j" by (subst eq) simp
  show "video_path r = video_path j" by (subst eq) simp
  show "created_at r = created_at j" by (subst eq) simp
  show "video_filename r = video_filename j" by (subst eq) simp
  show "video_size r = video_size j" by (subst eq) simp
qed

lemma create_analysis_job_row:
  assumes "create_analysis_job env file w = (Inr resp, w')"
  shows "\<exists>j. db w' (uuid4 env) = Some j \<and> job_id j = uuid4 env \<and> status j = ''PENDING'' \<and>
             report j = None \<and> error j = None \<and>
             chunks_processed j = 0 \<and> total_chunks j = 0 \<and>
             commits w' = commits w @ [j] \<and>
             background_tasks w' = background_tasks w @ [(uuid4 env, video_path j)]"
  using assms
  by (auto simp: create_analysis_job_def Let_def split: if_splits option.splits)



lemma process_chunks_summaries:
  "fst (process_chunks env jid i cs summaries w) = summaries @ chunk_summaries env i cs"
proof (induction cs arbitrary: i summaries w)
  case Nil
  show ?case by simp
next
  case (Cons c cs)
  show ?case
    by (cases "gemini env c")
       (simp_all add: Cons.IH analyze_video_chunk_with_gemini_def Let_def)
qed

lemma process_video_job_no_chunks:
  assumes j: "db w jid = Some j"
    and seg: "fst (chunk_video_with_ffmpeg env jid video w) = Inr []"
  shows "\<exists>r. db (process_video_job env jid video w) jid = Some r \<and>
             status r = ''FAILED'' \<and> error r = Some ''No video chunks were created'' \<and>
             last (commits (process_video_job env jid video w)) = r"
    and "analysed (process_video_job env jid video w) = analysed w"
proof -
  let ?w1 = "update_job jid (\<lambda>j. j\<lparr>status := ''PROCESSING''\<rparr>) w"
  obtain r w2 where cv: "chunk_video_with_ffmpeg env jid video ?w1 = (r, w2)"
    by fastforce
  have "fst (chunk_video_with_ffmpeg env jid video ?w1) = Inr []"
    using seg chunk_video_fst_files [of ?w1 w env jid video] by (simp add: update_job_frame)
  with cv have r: "r = Inr []" by simp
  have d2: "db w2 jid = Some (j\<lparr>status := ''PROCESSING'', updated_at := Some (clock w)\<rparr>)"
    and a2: "analysed w2 = analysed w"
    using chunk_video_frame(1,4) [of env jid video ?w1] cv j
    by (simp_all add: update_job_def Let_def)
  have eq: "process_video_job env jid video w =
      update_job jid (\<lambda>j. j\<lparr>status := ''FAILED'', error := Some ''No video chunks were created''\<rparr>) w2"
    using cv r by (simp add: process_video_job_def process_video_job_try_def Let_def)
  show "\<exists>r. db (process_video_job env jid video w) jid = Some r \<and>
             status r = ''FAILED'' \<and> error r = Some ''No video chunks were created'' \<and>
             last (commits (process_video_job env jid video w)) = r"
    unfolding eq using d2 by (simp add: update_job_def Let_def)
  show "analysed (process_video_job env jid video w) = analysed w"
    unfolding eq using a2 by (simp add: update_job_frame)
qed

lemma process_video_job_complete:
  assumes j: "db w jid = Some j"
    and seg: "fst (chunk_video_with_ffmpeg env jid video w) = Inr cs"
    and ne: "cs \<noteq> []"
    and wr: "write_report_error env (REPORTS_DIR @ ''/'' @ jid @ ''_report.txt'') = None"
  shows "\<exists>r. db (process_video_job env jid video w) jid = Some r \<and>
             last (commits (process_video_job env jid video w)) = r \<and>
             status r = ''COMPLETE'' \<and>
             report r =
               Some (create_consolidated_report (strftime_now env) (chunk_summaries env 0 cs)) \<and>
             chunks_processed r = int (length cs)"
proof -
  let ?w1 = "update_job jid (\<lambda>j. j\<lparr>status := ''PROCESSING''\<rparr>) w"
  let ?j1 = "j\<lparr>status := ''PROCESSING'', updated_at := Some (clock w)\<rparr>"
  obtain r w2 where cv: "chunk_video_with_ffmpeg env jid video ?w1 = (r, w2)"
    by fastforce
  have "fst (chunk_video_with_ffmpeg env jid video ?w1) = Inr cs"
    using seg chunk_video_fst_files [of ?w1 w env jid video] by (simp add: update_job_frame)
  with cv have r: "r = Inr cs" by simp
  have d2: "db w2 jid = Some ?j1"
    using chunk_video_frame(1) [of env jid video ?w1] cv j
    by (simp add: update_job_def Let_def)
  let ?n = "int (length cs)"
  let ?w3 = "update_job jid (\<lambda>j. j\<lparr>total_chunks := ?n\<rparr>) w2"
  let ?j3 = "?j1\<lparr>total_chunks := ?n, updated_at := Some (clock w2)\<rparr>"
  have d3: "db ?w3 jid = Some ?j3"
    using d2 by (simp add: update_job_def Let_def)
  obtain summaries w4 where pc: "process_chunks env jid 0 cs [] ?w3 = (summaries, w4)"
    by fastforce
  from process_chunks_summaries [of env jid 0 cs "[]" ?w3] pc
  have sm: "summaries = chunk_summaries env 0 cs" by simp
  from process_chunks_rows [OF d3, of env 0 cs "[]"] pc obtain rs where
    d4: "db w4 jid = Some (last (?j3 # rs))"
    by auto
  let ?rep = "create_consolidated_report (strftime_now env) summaries"
  let ?w5 = "w4\<lparr>files := insert (REPORTS_DIR @ ''/'' @ jid @ ''_report.txt'') (files w4)\<rparr>"
  let ?w6 = "update_job jid (\<lambda>j. j\<lparr>status := ''COMPLETE'', report := Some ?rep,
                chunks_processed := ?n\<rparr>) ?w5"
  have eq: "process_video_job env jid video w = cleanup_chunks env cs ?w6"
    using cv r ne pc wr by (simp add: process_video_job_def process_video_job_try_def Let_def)
  have "db ?w6 jid = Some ((last (?j3 # rs))\<lparr>status := ''COMPLETE'', report := Some ?rep,
                chunks_processed := ?n, updated_at := Some (clock w4)\<rparr>)"
    and "last (commits ?w6) = (last (?j3 # rs))\<lparr>status := ''COMPLETE'', report := Some ?rep,
                chunks_processed := ?n, updated_at := Some (clock w4)\<rparr>"
    using d4 by (simp_all add: update_job_def Let_def del: last.simps)
  then show ?thesis
    unfolding eq sm [symmetric] using cleanup_chunks_frame [of env cs ?w6]
    by (simp del: last.simps)
qed


lemma process_chunks_progress:
  "db w jid = Some j \<Longrightarrow>
   \<exists>rs. commits (snd (process_chunks env jid i cs summaries w)) = commits w @ rs \<and>
        map chunks_processed rs = progress_commits env i cs"
proof (induction cs arbitrary: i summaries w j)
  case Nil
  then show ?case by simp
next
  case (Cons c cs)
  let ?w1 = "w\<lparr>analysed := analysed w @ [(c, i + 1)]\<rparr>"
  have w1: "db ?w1 jid = Some j" using Cons.prems by simp
  show ?case
  proof (cases "gemini env c")
    case (Inl e)
    have step: "process_chunks env jid i (c # cs) summaries w =
      process_chunks env jid (i + 1) cs
        (summaries @ [''Error processing chunk '' @ str_nat (i + 1) @ '': '' @
           ''Failed to analyze chunk '' @ str_nat (i + 1) @ '': '' @ e]) ?w1"
      using Inl by (simp add: analyze_video_chunk_with_gemini_def Let_def)
    from Cons.IH [OF w1, of "i + 1"] Inl show ?thesis
      unfolding step by simp
  next
    case (Inr s)
    let ?j2 = "j\<lparr>chunks_processed := int (i + 1), updated_at := Some (clock w)\<rparr>"
    let ?w2 = "update_job jid (\<lambda>j. j\<lparr>chunks_processed := int (i + 1)\<rparr>) ?w1"
    have step: "process_chunks env jid i (c # cs) summaries w =
      process_chunks env jid (i + 1) cs (summaries @ [strip s]) ?w2"
      using Inr by (simp add: analyze_video_chunk_with_gemini_def Let_def)
    have c2: "commits ?w2 = commits w @ [?j2]" and d2: "db ?w2 jid = Some ?j2"
      using w1 by (simp_all add: update_job_def Let_def)
    from Cons.IH [OF d2, of "i + 1" "summaries @ [strip s]"] obtain rs where
      rs: "commits (snd (process_chunks env jid (i + 1) cs (summaries @ [strip s]) ?w2)) =
            commits ?w2 @ rs"
        "map chunks_processed rs = progress_commits env (i + 1) cs"
      by blast
    have "commits (snd (process_chunks env jid (i + 1) cs (summaries @ [strip s]) ?w2)) =
        commits w @ (?j2 # rs)"
      using rs(1) c2 by simp
    moreover have "map chunks_processed (?j2 # rs) = progress_commits env i (c # cs)"
      using rs(2) Inr by simp
    ultimately show ?thesis unfolding step by blast
  qed
qed

lemma process_chunks_analysed:
  "analysed (snd (process_chunks env jid i cs summaries w)) =
   analysed w @ zip cs [i + 1 ..< i + 1 + length cs]"
proof (induction cs arbitrary: i summaries w)
  case Nil
  show ?case by simp
next
  case (Cons c cs)
  have "[i + 1 ..< i + 1 + length (c # cs)] = (i + 1) # [i + 2 ..< i + 2 + length cs]"
    by (simp add: upt_rec)
  then show ?case
    by (cases "gemini env c")
       (simp_all add: Cons.IH analyze_video_chunk_with_gemini_def Let_def update_job_frame)
qed


lemma glob_chunks_subset: "set (glob_chunks d w) \<subseteq> files w"
proof -
  let ?A = "Set.filter (\<lambda>p. below d p \<and> chunk_name (drop (length d + 1) p)) (files w)"
  have "set (sorted_list_of_set ?A) \<subseteq> ?A"
    by (cases "finite ?A") simp_all
  then show ?thesis by (auto simp: glob_chunks_def)
qed

lemma chunk_video_chunks_exist:
  assumes "fst (chunk_video_with_ffmpeg env jid video w) = Inr cs"
  shows "set cs \<subseteq> files (snd (chunk_video_with_ffmpeg env jid video w))"
proof -
  let ?d = "CHUNKS_DIR @ ''/'' @ jid"
  let ?w2 = "snd (chunk_video_with_ffmpeg env jid video w)"
  from assms have "cs = glob_chunks ?d ?w2"
    by (simp add: chunk_video_with_ffmpeg_def Let_def split: if_splits)
  then show ?thesis using glob_chunks_subset [of ?d ?w2] by simp
qed

lemma chunk_video_snd_files:
  "files w' = files w \<Longrightarrow>
   files (snd (chunk_video_with_ffmpeg env jid video w')) =
   files (snd (chunk_video_with_ffmpeg env jid video w))"
  by (simp add: chunk_video_with_ffmpeg_def Let_def)

lemma cleanup_chunks_files:
  "files (cleanup_chunks env cs w) =
   files w - {p \<in> set cs. p \<notin> dirs w \<and> p \<notin> unremovable env}"
proof (induction cs arbitrary: w)
  case Nil
  show ?case by simp
next
  case (Cons c cs)
  show ?case
  proof (cases "os_remove env c w")
    case (Inl e)
    then have "c \<notin> files w \<or> c \<in> dirs w \<or> c \<in> unremovable env"
      by (auto simp: os_remove_def split: if_splits)
    with Inl show ?thesis by (auto simp: Cons.IH)
  next
    case (Inr w')
    then have "c \<notin> dirs w" "c \<notin> unremovable env" "files w' = files w - {c}" "dirs w' = dirs w"
      by (auto simp: os_remove_def split: if_splits)
    with Inr show ?thesis by (auto simp: Cons.IH)
  qed
qed

lemma process_video_job_complete_progress:
  assumes j: "db w jid = Some j"
    and seg: "fst (chunk_video_with_ffmpeg env jid video w) = Inr cs"
    and ne: "cs \<noteq> []"
    and wr: "write_report_error env (REPORTS_DIR @ ''/'' @ jid @ ''_report.txt'') = None"
  shows "map chunks_processed (observed j w (process_video_job env jid video w)) =
           chunks_processed j # chunks_processed j # chunks_processed j #
           progress_commits env 0 cs @ [int (length cs)]"
    and "analysed (process_video_job env jid video w) =
           analysed w @ zip cs [1 ..< 1 + length cs]"
proof -
  let ?w1 = "update_job jid (\<lambda>j. j\<lparr>status := ''PROCESSING''\<rparr>) w"
  let ?j1 = "j\<lparr>status := ''PROCESSING'', updated_at := Some (clock w)\<rparr>"
  obtain r w2 where cv: "chunk_video_with_ffmpeg env jid video ?w1 = (r, w2)"
    by fastforce
  have "fst (chunk_video_with_ffmpeg env jid video ?w1) = Inr cs"
    using seg chunk_video_fst_files [of ?w1 w env jid video] by (simp add: update_job_frame)
  with cv have r: "r = Inr cs" by simp
  have d2: "db w2 jid = Some ?j1" and c2: "commits w2 = commits w @ [?j1]"
    and a2: "analysed w2 = analysed w"
    using chunk_video_frame(1,2,4) [of env jid video ?w1] cv j
    by (simp_all add: update_job_def Let_def)
  let ?n = "int (length cs)"
  let ?w3 = "update_job jid (\<lambda>j. j\<lparr>total_chunks := ?n\<rparr>) w2"
  let ?j3 = "?j1\<lparr>total_chunks := ?n, updated_at := Some (clock w2)\<rparr>"
  have d3: "db ?w3 jid = Some ?j3" and c3: "commits ?w3 = commits w @ [?j1, ?j3]"
    and a3: "analysed ?w3 = analysed w"
    using d2 c2 a2 by (simp_all add: update_job_def Let_def)
  obtain summaries w4 where pc: "process_chunks env jid 0 cs [] ?w3 = (summaries, w4)"
    by fastforce
  from process_chunks_progress [OF d3, of env 0 cs "[]"] pc obtain rs where
    c4: "commits w4 = commits ?w3 @ rs" and p4: "map chunks_processed rs = progress_commits env 0 cs"
    by auto
  from process_chunks_rows [OF d3, of env 0 cs "[]"] pc obtain rs' where
    d4: "db w4 jid = Some (last (?j3 # rs'))"
    by auto
  have a4: "analysed w4 = analysed w @ zip cs [1 ..< 1 + length cs]"
    using process_chunks_analysed [of env jid 0 cs "[]" ?w3] pc a3 by simp
  let ?rep = "create_consolidated_report (strftime_now env) summaries"
  let ?w5 = "w4\<lparr>files := insert (REPORTS_DIR @ ''/'' @ jid @ ''_report.txt'') (files w4)\<rparr>"
  let ?w6 = "update_job jid (\<lambda>j. j\<lparr>status := ''COMPLETE'', report := Some ?rep,
                chunks_processed := ?n\<rparr>) ?w5"
  let ?fin = "(last (?j3 # rs'))\<lparr>status := ''COMPLETE'', report := Some ?rep,
                chunks_processed := ?n, updated_at := Some (clock w4)\<rparr>"
  have eq: "process_video_job env jid video w = cleanup_chunks env cs ?w6"
    using cv r ne pc wr by (simp add: process_video_job_def process_video_job_try_def Let_def)
  have c6: "commits ?w6 = commits w @ [?j1, ?j3] @ rs @ [?fin]"
    using d4 c4 c3 by (simp add: update_job_def Let_def del: last.simps)
  have a6: "analysed ?w6 = analysed w4" by (simp add: update_job_frame)
  have cf: "commits (process_video_job env jid video w) = commits w @ [?j1, ?j3] @ rs @ [?fin]"
    and af: "analysed (process_video_job env jid video w) = analysed w4"
    unfolding eq using cleanup_chunks_frame [of env cs ?w6] c6 a6 by simp_all
  show "map chunks_processed (observed j w (process_video_job env jid video w)) =
           chunks_processed j # chunks_processed j # chunks_processed j #
           progress_commits env 0 cs @ [int (length cs)]"
    by (simp add: observed_def cf p4 del: last.simps)
  show "analysed (process_video_job env jid video w) =
           analysed w @ zip cs [1 ..< 1 + length cs]"
    using af a4 by simp
qed

lemma process_video_job_write_failure:
  assumes j: "db w jid = Some j"
    and seg: "fst (chunk_video_with_ffmpeg env jid video w) = Inr cs"
    and ne: "cs \<noteq> []"
    and wr: "write_report_error env (REPORTS_DIR @ ''/'' @ jid @ ''_report.txt'') = Some e"
  shows "\<exists>r. db (process_video_job env jid video w) jid = Some r \<and>
             last (commits (process_video_job env jid video w)) = r \<and>
             status r = ''FAILED'' \<and> error r = Some e"
    and "set cs \<subseteq> files (process_video_job env jid video w)"
proof -
  let ?w1 = "update_job jid (\<lambda>j. j\<lparr>status := ''PROCESSING''\<rparr>) w"
  let ?j1 = "j\<lparr>status := ''PROCESSING'', updated_at := Some (clock w)\<rparr>"
  obtain r w2 where cv: "chunk_video_with_ffmpeg env jid video ?w1 = (r, w2)"
    by fastforce
  have f1: "files ?w1 = files w" by (simp add: update_job_frame)
  have "fst (chunk_video_with_ffmpeg env jid video ?w1) = Inr cs"
    using seg chunk_video_fst_files [OF f1, of env jid video] by simp
  with cv have r: "r = Inr cs" by simp
  have d2: "db w2 jid = Some ?j1"
    using chunk_video_frame(1) [of env jid video ?w1] cv j
    by (simp add: update_job_def Let_def)
  have "set cs \<subseteq> files (snd (chunk_video_with_ffmpeg env jid video w))"
    using chunk_video_chunks_exist [OF seg] .
  then have f2: "set cs \<subseteq> files w2"
    using chunk_video_snd_files [OF f1, of env jid video] cv by simp
  let ?n = "int (length cs)"
  let ?w3 = "update_job jid (\<lambda>j. j\<lparr>total_chunks := ?n\<rparr>) w2"
  let ?j3 = "?j1\<lparr>total_chunks := ?n, updated_at := Some (clock w2)\<rparr>"
  have d3: "db ?w3 jid = Some ?j3"
    using d2 by (simp add: update_job_def Let_def)
  obtain summaries w4 where pc: "process_chunks env jid 0 cs [] ?w3 = (summaries, w4)"
    by fastforce
  from process_chunks_rows [OF d3, of env 0 cs "[]"] pc obtain rs where
    d4: "db w4 jid = Some (last (?j3 # rs))"
    by auto
  have f4: "files w4 = files w2"
    using process_chunks_files [of env jid 0 cs "[]" ?w3] pc by (simp add: update_job_frame)
  have eq: "process_video_job env jid video w =
      update_job jid (\<lambda>j. j\<lparr>status := ''FAILED'', error := Some e\<rparr>) w4"
    using cv r ne pc wr by (simp add: process_video_job_def process_video_job_try_def Let_def)
  show "\<exists>r. db (process_video_job env jid video w) jid = Some r \<and>
             last (commits (process_video_job env jid video w)) = r \<and>
             status r = ''FAILED'' \<and> error r = Some e"
    unfolding eq using d4 by (simp add: update_job_def Let_def del: last.simps)
  show "set cs \<subseteq> files (process_video_job env jid video w)"
    unfolding eq using f2 f4 by (simp add: update_job_frame)
qed

lemma example_world_row: "db example_world ''job-1'' = Some example_job"
  by (simp add: example_world_def create_analysis_job_def example_env_def example_upload_def
      example_start_def example_job_def valid_video_extensions_def UPLOAD_DIR_def Let_def)

lemma example_world_tasks: "background_tasks example_world = [(''job-1'', ''uploads/job-1.mp4'')]"
  by (simp add: example_world_def create_analysis_job_def example_env_def example_upload_def
      example_start_def example_job_def valid_video_extensions_def UPLOAD_DIR_def Let_def)

lemma example_chunks:
  "fst (chunk_video_with_ffmpeg example_env ''job-1'' ''uploads/job-1.mp4'' example_world) =
   Inr [''chunks/job-1/chunk_000.mp4'', ''chunks/job-1/chunk_001.mp4'',
        ''chunks/job-1/chunk_002.mp4'']"
  by code_simp

lemma last_observed:
  assumes "db w jid = Some j"
  shows "last (observed j w (process_video_job env jid video w)) =
         last (commits (process_video_job env jid video w))"
proof -
  from process_video_job_rows [OF assms, of env video] obtain mid fin where
    "commits (process_video_job env jid video w) =
       commits w @ j\<lparr>status := ''PROCESSING'', updated_at := Some (clock w)\<rparr> # mid @ [fin]"
    by blast
  then show ?thesis by (simp add: observed_def)
qed

lemma example_chunks_write_failure:
  "fst (chunk_video_with_ffmpeg
         (example_env\<lparr>write_report_error := \<lambda>p. Some ''No space left on device''\<rparr>)
         ''job-1'' ''uploads/job-1.mp4'' example_world) =
   Inr [''chunks/job-1/chunk_000.mp4'', ''chunks/job-1/chunk_001.mp4'',
        ''chunks/job-1/chunk_002.mp4'']"
  by code_simp

lemma example_job_fields:
  "status example_job = ''PENDING''" "report example_job = None" "error example_job = None"
  "chunks_processed example_job = 0" "total_chunks example_job = 0"
  by (simp_all add: example_job_def)

lemma example_complete_row:
  "\<exists>r. r \<in> set (observed example_job example_world
            (process_video_job example_env ''job-1'' ''uploads/job-1.mp4'' example_world)) \<and>
       status r = ''COMPLETE'' \<and> chunks_processed r = 3"
proof -
  let ?cs = "[''chunks/job-1/chunk_000.mp4'', ''chunks/job-1/chunk_001.mp4'',
        ''chunks/job-1/chunk_002.mp4'']"
  let ?w' = "process_video_job example_env ''job-1'' ''uploads/job-1.mp4'' example_world"
  have ne: "?cs \<noteq> []" by simp
  have wr: "write_report_error example_env (REPORTS_DIR @ ''/'' @ ''job-1'' @ ''_report.txt'') = None"
    by (simp add: example_env_def)
  from process_video_job_complete [OF example_world_row example_chunks ne wr]
  have l: "status (last (commits ?w')) = ''COMPLETE''"
    "chunks_processed (last (commits ?w')) = 3"
    by auto
  have "observed example_job example_world ?w' \<noteq> []" by (simp add: observed_def)
  then have "last (observed example_job example_world ?w') \<in>
      set (observed example_job example_world ?w')"
    by (rule last_in_set)
  with l last_observed [OF example_world_row, of example_env "''uploads/job-1.mp4''"]
  show ?thesis by auto
qed

lemma delete_job_files_chunk_dir:
  "delete_job_files env jid db_job w = Inr w2 \<Longrightarrow> \<not> path_exists w2 (CHUNKS_DIR @ ''/'' @ jid)"
  by (auto simp: delete_job_files_def Let_def rmtree_def path_exists_def
           split: sum.splits if_splits)

section \<open>Claims about the aggregator\<close>



section \<open>Claims about the life of a job\<close>

text \<open>
  The statements below follow one run of the background task on a job whose row is in
  the store. \<open>observed j w w'\<close> lists the row versions a client polling the store can
  see: the row \<open>j\<close> as \<open>create_analysis_job\<close> left it, then each version committed by
  the task, in order.
\<close>

text \<open>
  C2. The status of a job moves only along PENDING, PROCESSING, then COMPLETE or FAILED:
  over the run of the task on a pending job the observable statuses are PENDING, then
  PROCESSING one or more times, then exactly one of COMPLETE and FAILED, which is the
  last version committed and the status the store holds afterwards.
\<close>

theorem status_transitions:
  assumes "db w jid = Some j" and "status j = ''PENDING''"
  shows "\<exists>n fin.
           map status (observed j w (process_video_job env jid video w)) =
             ''PENDING'' # replicate (Suc n) ''PROCESSING'' @ [fin] \<and>
           (fin = ''COMPLETE'' \<or> fin = ''FAILED'') \<and>
           (\<exists>r. db (process_video_job env jid video w) jid = Some r \<and> status r = fin)"
proof -
  let ?j1 = "j\<lparr>status := ''PROCESSING'', updated_at := Some (clock w)\<rparr>"
  from observed_shape [OF assms(1), of env video] obtain mid fin where
    obs: "observed j w (process_video_job env jid video w) = j # ?j1 # mid @ [fin]"
    and d: "db (process_video_job env jid video w) jid = Some fin"
    and m: "\<forall>r \<in> set mid. processing_row j r"
    and f: "(\<exists>e t. fin = (last (?j1 # mid))\<lparr>status := ''FAILED'', error := Some e, updated_at := t\<rparr>) \<or>
            mid \<noteq> [] \<and>
            (\<exists>rep t. fin = (last mid)\<lparr>status := ''COMPLETE'', report := Some rep,
                 chunks_processed := total_chunks (last mid), updated_at := t\<rparr>)"
    by blast
  have "\<forall>s \<in> set (map status mid). s = ''PROCESSING''"
    using m processing_row_fields(1) by auto
  then have mids: "map status mid = replicate (length mid) ''PROCESSING''"
    using replicate_length_same [of "map status mid" "''PROCESSING''"] by simp
  from f have fin: "status fin = ''COMPLETE'' \<or> status fin = ''FAILED''" by auto
  have "map status (observed j w (process_video_job env jid video w)) =
      ''PENDING'' # replicate (Suc (length mid)) ''PROCESSING'' @ [status fin]"
    by (simp add: obs mids assms(2))
  with fin d show ?thesis
    by (intro exI [of _ "length mid"] exI [of _ "status fin"]) simp
qed

theorem status_transitions_witness:
  "db example_world ''job-1'' = Some example_job \<and> status example_job = ''PENDING'' \<and>
   (\<exists>n fin.
      map status (observed example_job example_world
        (process_video_job example_env ''job-1'' ''uploads/job-1.mp4'' example_world)) =
        ''PENDING'' # replicate (Suc n) ''PROCESSING'' @ [fin] \<and>
      (fin = ''COMPLETE'' \<or> fin = ''FAILED'') \<and>
      (\<exists>r. db (process_video_job example_env ''job-1'' ''uploads/job-1.mp4'' example_world) ''job-1'' = Some r \<and>
           status r = fin))"
proof -
  have h2: "status example_job = ''PENDING''" by (simp add: example_job_def)
  from status_transitions [OF example_world_row h2] example_world_row h2
  show ?thesis by (intro conjI)
qed

text \<open>
  C4. At every observable point the report is set exactly when the status is COMPLETE,
  the error is set exactly when the status is FAILED, and they are never both set.
\<close>

theorem report_error_follow_status:
  assumes "db w jid = Some j" and "status j = ''PENDING''"
    and "report j = None" and "error j = None"
  shows "\<forall>r \<in> set (observed j w (process_video_job env jid video w)).
           (report r \<noteq> None \<longleftrightarrow> status r = ''COMPLETE'') \<and>
           (error r \<noteq> None \<longleftrightarrow> status r = ''FAILED'') \<and>
           (report r = None \<or> error r = None)"
proof -
  let ?j1 = "j\<lparr>status := ''PROCESSING'', updated_at := Some (clock w)\<rparr>"
  let ?P = "\<lambda>r. (report r \<noteq> None \<longleftrightarrow> status r = ''COMPLETE'') \<and>
           (error r \<noteq> None \<longleftrightarrow> status r = ''FAILED'') \<and>
           (report r = None \<or> error r = None)"
  let ?Q = "\<lambda>r. status r = ''PROCESSING'' \<and> report r = None \<and> error r = None"
  from observed_shape [OF assms(1), of env video] obtain mid fin where
    obs: "observed j w (process_video_job env jid video w) = j # ?j1 # mid @ [fin]"
    and m: "\<forall>r \<in> set mid. processing_row j r"
    and f: "(\<exists>e t. fin = (last (?j1 # mid))\<lparr>status := ''FAILED'', error := Some e, updated_at := t\<rparr>) \<or>
            mid \<noteq> [] \<and>
            (\<exists>rep t. fin = (last mid)\<lparr>status := ''COMPLETE'', report := Some rep,
                 chunks_processed := total_chunks (last mid), updated_at := t\<rparr>)"
    by blast
  have q1: "?Q ?j1" using assms by simp
  have qm: "?Q r" if "r \<in> set mid" for r
    using that m processing_row_fields(1,2,3) [of j r] assms by simp
  have ql: "?Q (last (?j1 # mid))"
  proof (cases "mid = []")
    case True
    then show ?thesis using q1 by simp
  next
    case False
    then have "last mid \<in> set mid" by simp
    from qm [OF this] False show ?thesis by simp
  qed
  have qlm: "?Q (last mid)" if "mid \<noteq> []"
    using qm [of "last mid"] that by simp
  have "?P j" using assms by simp
  moreover have "?P ?j1" using q1 by simp
  moreover have "?P r" if "r \<in> set mid" for r using qm [OF that] by simp
  moreover have "?P fin"
    using f
  proof
    assume "\<exists>e t. fin = (last (?j1 # mid))\<lparr>status := ''FAILED'', error := Some e, updated_at := t\<rparr>"
    then obtain e t where
      "fin = (last (?j1 # mid))\<lparr>status := ''FAILED'', error := Some e, updated_at := t\<rparr>"
      by blast
    with ql show ?thesis by (simp del: last.simps)
  next
    assume "mid \<noteq> [] \<and>
            (\<exists>rep t. fin = (last mid)\<lparr>status := ''COMPLETE'', report := Some rep,
                 chunks_processed := total_chunks (last mid), updated_at := t\<rparr>)"
    then obtain rep t where ne: "mid \<noteq> []" and
      "fin = (last mid)\<lparr>status := ''COMPLETE'', report := Some rep,
                 chunks_processed := total_chunks (last mid), updated_at := t\<rparr>"
      by blast
    with qlm [OF ne] show ?thesis by simp
  qed
  ultimately show ?thesis unfolding obs by auto
qed

theorem report_error_follow_status_witness:
  "db example_world ''job-1'' = Some example_job \<and> status example_job = ''PENDING'' \<and>
   report example_job = None \<and> error example_job = None \<and>
   (\<exists>r. r \<in> set (observed example_job example_world
            (process_video_job example_env ''job-1'' ''uploads/job-1.mp4'' example_world)) \<and>
        status r = ''COMPLETE'' \<and> report r \<noteq> None \<and> error r = None)"
proof -
  from example_complete_row obtain r where
    r: "r \<in> set (observed example_job example_world
            (process_video_job example_env ''job-1'' ''uploads/job-1.mp4'' example_world))"
      "status r = ''COMPLETE''"
    by blast
  from report_error_follow_status
    [OF example_world_row example_job_fields(1) example_job_fields(2) example_job_fields(3),
     of example_env "''uploads/job-1.mp4''"] r(1)
  have "(report r \<noteq> None \<longleftrightarrow> status r = ''COMPLETE'') \<and>
        (error r \<noteq> None \<longleftrightarrow> status r = ''FAILED'')"
    by blast
  with r(2) have "report r \<noteq> None" "error r = None" by simp_all
  with r example_world_row example_job_fields show ?thesis by blast
qed

text \<open>
  C6. At every observable point, so also at every point after the total has been set,
  both counters are non-negative and \<open>chunks_processed\<close> does not exceed
  \<open>total_chunks\<close>.
\<close>

theorem counters_bounded:
  assumes "db w jid = Some j" and "chunks_processed j = 0" and "total_chunks j = 0"
  shows "\<forall>r \<in> set (observed j w (process_video_job env jid video w)).
           0 \<le> chunks_processed r \<and> 0 \<le> total_chunks r \<and>
           chunks_processed r \<le> total_chunks r"
proof -
  let ?j1 = "j\<lparr>status := ''PROCESSING'', updated_at := Some (clock w)\<rparr>"
  let ?P = "\<lambda>r. 0 \<le> chunks_processed r \<and> 0 \<le> total_chunks r \<and>
           chunks_processed r \<le> total_chunks r"
  from observed_shape [OF assms(1), of env video] obtain mid fin where
    obs: "observed j w (process_video_job env jid video w) = j # ?j1 # mid @ [fin]"
    and m: "\<forall>r \<in> set mid. processing_row j r"
    and f: "(\<exists>e t. fin = (last (?j1 # mid))\<lparr>status := ''FAILED'', error := Some e, updated_at := t\<rparr>) \<or>
            mid \<noteq> [] \<and>
            (\<exists>rep t. fin = (last mid)\<lparr>status := ''COMPLETE'', report := Some rep,
                 chunks_processed := total_chunks (last mid), updated_at := t\<rparr>)"
    by blast
  have p0: "?P j" using assms by simp
  have p1: "?P ?j1" using assms by simp
  have pm: "?P r" if "r \<in> set mid" for r
  proof -
    from m that have "processing_row j r" by blast
    then have "0 < total_chunks r" and
      "chunks_processed r = chunks_processed j \<or>
       0 < chunks_processed r \<and> chunks_processed r \<le> total_chunks r"
      by (simp_all add: processing_row_def)
    with assms(2) show ?thesis by auto
  qed
  have pl: "?P (last (?j1 # mid))"
  proof (cases "mid = []")
    case True
    then show ?thesis using p1 by simp
  next
    case False
    then have "last mid \<in> set mid" by simp
    from pm [OF this] False show ?thesis by simp
  qed
  have pf: "?P fin"
    using f
  proof
    assume "\<exists>e t. fin = (last (?j1 # mid))\<lparr>status := ''FAILED'', error := Some e, updated_at := t\<rparr>"
    then obtain e t where
      "fin = (last (?j1 # mid))\<lparr>status := ''FAILED'', error := Some e, updated_at := t\<rparr>"
      by blast
    with pl show ?thesis by (simp del: last.simps)
  next
    assume "mid \<noteq> [] \<and>
            (\<exists>rep t. fin = (last mid)\<lparr>status := ''COMPLETE'', report := Some rep,
                 chunks_processed := total_chunks (last mid), updated_at := t\<rparr>)"
    then obtain rep t where ne: "mid \<noteq> []" and
      fin: "fin = (last mid)\<lparr>status := ''COMPLETE'', report := Some rep,
                 chunks_processed := total_chunks (last mid), updated_at := t\<rparr>"
      by blast
    from ne have "last mid \<in> set mid" by simp
    from pm [OF this] fin show ?thesis by simp
  qed
  from p0 p1 pm pf show ?thesis unfolding obs by auto
qed

theorem counters_bounded_witness:
  "db example_world ''job-1'' = Some example_job \<and>
   chunks_processed example_job = 0 \<and> total_chunks example_job = 0 \<and>
   (\<exists>r. r \<in> set (observed example_job example_world
            (process_video_job example_env ''job-1'' ''uploads/job-1.mp4'' example_world)) \<and>
        chunks_processed r = 3 \<and> 3 \<le> total_chunks r)"
proof -
  from example_complete_row obtain r where
    r: "r \<in> set (observed example_job example_world
            (process_video_job example_env ''job-1'' ''uploads/job-1.mp4'' example_world))"
      "chunks_processed r = 3"
    by blast
  from counters_bounded
    [OF example_world_row example_job_fields(4) example_job_fields(5),
     of example_env "''uploads/job-1.mp4''"] r(1)
  have "chunks_processed r \<le> total_chunks r" by blast
  with r(2) have "3 \<le> total_chunks r" by simp
  with r example_world_row example_job_fields show ?thesis by blast
qed

text \<open>
  C10. When the task ends in FAILED, the last version of the row is the version before
  it (a PROCESSING one) with only the status, the error and the update time changed:
  the counters, the report and the fields describing the upload keep their values.
\<close>

theorem failure_update_frame:
  assumes "db w jid = Some j"
    and "tr = observed j w (process_video_job env jid video w)"
    and "status (last tr) = ''FAILED''"
  shows "db (process_video_job env jid video w) jid = Some (last tr) \<and>
         status (last (butlast tr)) = ''PROCESSING'' \<and>
         (\<exists>e. last tr = (last (butlast tr))\<lparr>status := ''FAILED'', error := Some e,
                           updated_at := updated_at (last tr)\<rparr>) \<and>
         chunks_processed (last tr) = chunks_processed (last (butlast tr)) \<and>
         total_chunks (last tr) = total_chunks (last (butlast tr)) \<and>
         report (last tr) = report (last (butlast tr)) \<and>
         video_path (last tr) = video_path (last (butlast tr)) \<and>
         video_filename (last tr) = video_filename (last (butlast tr)) \<and>
         video_size (last tr) = video_size (last (butlast tr))"
proof -
  let ?j1 = "j\<lparr>status := ''PROCESSING'', updated_at := Some (clock w)\<rparr>"
  from observed_shape [OF assms(1), of env video] obtain mid fin where
    obs: "observed j w (process_video_job env jid video w) = j # ?j1 # mid @ [fin]"
    and d: "db (process_video_job env jid video w) jid = Some fin"
    and m: "\<forall>r \<in> set mid. processing_row j r"
    and f: "(\<exists>e t. fin = (last (?j1 # mid))\<lparr>status := ''FAILED'', error := Some e, updated_at := t\<rparr>) \<or>
            mid \<noteq> [] \<and>
            (\<exists>rep t. fin = (last mid)\<lparr>status := ''COMPLETE'', report := Some rep,
                 chunks_processed := total_chunks (last mid), updated_at := t\<rparr>)"
    by blast
  have l: "last tr = fin" and b: "last (butlast tr) = last (?j1 # mid)"
    unfolding assms(2) obs by (simp_all add: butlast_append)
  from assms(3) l have "status fin = ''FAILED''" by simp
  with f obtain e t where
    fin: "fin = (last (?j1 # mid))\<lparr>status := ''FAILED'', error := Some e, updated_at := t\<rparr>"
    by auto
  have t: "updated_at fin = t" by (subst fin) simp
  have p: "status (last (?j1 # mid)) = ''PROCESSING''"
  proof (cases "mid = []")
    case True
    then show ?thesis by simp
  next
    case False
    then have "last mid \<in> set mid" by simp
    with m have "processing_row j (last mid)" by blast
    from processing_row_fields(1) [OF this] False show ?thesis by simp
  qed
  show ?thesis
    unfolding l b using d p fin t by (simp del: last.simps) (rule exI, rule refl)
qed


theorem failure_update_frame_witness:
  "db example_world ''job-1'' = Some example_job \<and>
   status (last (observed example_job example_world
     (process_video_job
        (example_env\<lparr>write_report_error := \<lambda>p. Some ''No space left on device''\<rparr>)
        ''job-1'' ''uploads/job-1.mp4'' example_world))) = ''FAILED'' \<and>
   chunks_processed (last (observed example_job example_world
     (process_video_job
        (example_env\<lparr>write_report_error := \<lambda>p. Some ''No space left on device''\<rparr>)
        ''job-1'' ''uploads/job-1.mp4'' example_world))) =
   chunks_processed (last (butlast (observed example_job example_world
     (process_video_job
        (example_env\<lparr>write_report_error := \<lambda>p. Some ''No space left on device''\<rparr>)
        ''job-1'' ''uploads/job-1.mp4'' example_world)))) \<and>
   total_chunks (last (observed example_job example_world
     (process_video_job
        (example_env\<lparr>write_report_error := \<lambda>p. Some ''No space left on device''\<rparr>)
        ''job-1'' ''uploads/job-1.mp4'' example_world))) =
   total_chunks (last (butlast (observed example_job example_world
     (process_video_job
        (example_env\<lparr>write_report_error := \<lambda>p. Some ''No space left on device''\<rparr>)
        ''job-1'' ''uploads/job-1.mp4'' example_world))))"
proof -
  let ?env = "example_env\<lparr>write_report_error := \<lambda>p. Some ''No space left on device''\<rparr>"
  let ?cs = "[''chunks/job-1/chunk_000.mp4'', ''chunks/job-1/chunk_001.mp4'',
        ''chunks/job-1/chunk_002.mp4'']"
  let ?tr = "observed example_job example_world
     (process_video_job ?env ''job-1'' ''uploads/job-1.mp4'' example_world)"
  have ne: "?cs \<noteq> []" by simp
  have wr: "write_report_error ?env (REPORTS_DIR @ ''/'' @ ''job-1'' @ ''_report.txt'') =
      Some ''No space left on device''"
    by simp
  from process_video_job_write_failure(1)
    [OF example_world_row example_chunks_write_failure ne wr]
  have "status (last (commits (process_video_job ?env ''job-1'' ''uploads/job-1.mp4'' example_world))) =
      ''FAILED''" by auto
  then have h3: "status (last ?tr) = ''FAILED''"
    using last_observed [OF example_world_row, of ?env "''uploads/job-1.mp4''"] by simp
  from failure_update_frame [OF example_world_row refl h3] example_world_row h3
  show ?thesis by (intro conjI) blast+
qed



text \<open>
  C3. When the segmentation gives no chunk, the job ends in FAILED with the error
  \<open>No video chunks were created\<close>, and the analysis function is not called.
\<close>

theorem no_segments_fails_job:
  assumes "db w jid = Some j"
    and "fst (chunk_video_with_ffmpeg env jid video w) = Inr []"
  shows "\<exists>r. db (process_video_job env jid video w) jid = Some r \<and>
             last (commits (process_video_job env jid video w)) = r \<and>
             status r = ''FAILED'' \<and>
             error r = Some ''No video chunks were created'' \<and>
             analysed (process_video_job env jid video w) = analysed w"
  using process_video_job_no_chunks [OF assms] by blast

theorem no_segments_fails_job_witness:
  "\<exists>r. db (process_video_job
             (example_env\<lparr>ffmpeg := \<lambda>video chunk_dir. \<lparr>returncode = 0, stderr = [], written = []\<rparr>\<rparr>)
             ''job-1'' ''uploads/job-1.mp4'' example_world) ''job-1'' = Some r \<and>
       status r = ''FAILED'' \<and> error r = Some ''No video chunks were created'' \<and>
       analysed (process_video_job
             (example_env\<lparr>ffmpeg := \<lambda>video chunk_dir. \<lparr>returncode = 0, stderr = [], written = []\<rparr>\<rparr>)
             ''job-1'' ''uploads/job-1.mp4'' example_world) = []"
proof -
  let ?env = "example_env\<lparr>ffmpeg := \<lambda>video chunk_dir. \<lparr>returncode = 0, stderr = [], written = []\<rparr>\<rparr>"
  have h2: "fst (chunk_video_with_ffmpeg ?env ''job-1'' ''uploads/job-1.mp4'' example_world) = Inr []"
    by code_simp
  have a: "analysed example_world = []"
    by (simp add: example_world_def create_analysis_job_def example_env_def example_upload_def
      example_start_def valid_video_extensions_def Let_def)
  from no_segments_fails_job [OF example_world_row h2] a show ?thesis by auto
qed


section \<open>Where the code departs from the specification\<close>

text \<open>
  C5. The claim is that after each chunk, whether its analysis succeeded or failed,
  \<open>chunks_processed\<close> goes up by exactly one and is committed before the next analysis
  begins. The assignment \<open>db_job.chunks_processed = i + 1\<close> stands in the \<open>try\<close> part of
  the loop only, so the \<open>except\<close> part commits nothing. On the example (three chunks,
  the second one fails) all three chunks are analysed and the values a client can
  observe are 0, 0, 0, 1, 3, 3: the counter still reads 1 after the second chunk and
  goes from 1 to 3 after the third.
\<close>

theorem failed_chunk_skips_progress_update:
  "map chunks_processed
     (observed example_job example_world
        (process_video_job example_env ''job-1'' ''uploads/job-1.mp4'' example_world)) =
     [0, 0, 0, 1, 3, 3] \<and>
   analysed (process_video_job example_env ''job-1'' ''uploads/job-1.mp4'' example_world) =
     [(''chunks/job-1/chunk_000.mp4'', 1), (''chunks/job-1/chunk_001.mp4'', 2),
      (''chunks/job-1/chunk_002.mp4'', 3)]"
proof -
  let ?cs = "[''chunks/job-1/chunk_000.mp4'', ''chunks/job-1/chunk_001.mp4'',
        ''chunks/job-1/chunk_002.mp4'']"
  have ne: "?cs \<noteq> []" by simp
  have wr: "write_report_error example_env (REPORTS_DIR @ ''/'' @ ''job-1'' @ ''_report.txt'') = None"
    by (simp add: example_env_def)
  have p: "progress_commits example_env 0 ?cs = [1, 3]"
    by (simp add: example_env_def)
  have a: "analysed example_world = []"
    by (simp add: example_world_def create_analysis_job_def example_env_def example_upload_def
      example_start_def valid_video_extensions_def Let_def)
  have z: "zip ?cs [1 ..< 1 + length ?cs] =
     [(''chunks/job-1/chunk_000.mp4'', 1), (''chunks/job-1/chunk_001.mp4'', 2),
      (''chunks/job-1/chunk_002.mp4'', 3)]"
    by (simp add: upt_rec)
  from process_video_job_complete_progress [OF example_world_row example_chunks ne wr]
  show ?thesis
    unfolding p a z by (simp add: example_job_def)
qed

text \<open>
  C8. The claim is that the chunk files of a job are deleted on every way the task can
  end. The loop that removes them stands at the end of the \<open>try\<close> block, after the
  commit of COMPLETE, and the \<open>except\<close> block removes nothing. On the example with the
  report file failing to be written, the job ends in FAILED and the three chunk files
  are still on disk.
\<close>

theorem chunks_left_after_failed_report_write:
  "(\<exists>r. db (process_video_job
              (example_env\<lparr>write_report_error := \<lambda>p. Some ''No space left on device''\<rparr>)
              ''job-1'' ''uploads/job-1.mp4'' example_world) ''job-1'' = Some r \<and>
        status r = ''FAILED'' \<and> error r = Some ''No space left on device'') \<and>
   ''chunks/job-1/chunk_000.mp4'' \<in>
     files (process_video_job
              (example_env\<lparr>write_report_error := \<lambda>p. Some ''No space left on device''\<rparr>)
              ''job-1'' ''uploads/job-1.mp4'' example_world) \<and>
   ''chunks/job-1/chunk_001.mp4'' \<in>
     files (process_video_job
              (example_env\<lparr>write_report_error := \<lambda>p. Some ''No space left on device''\<rparr>)
              ''job-1'' ''uploads/job-1.mp4'' example_world) \<and>
   ''chunks/job-1/chunk_002.mp4'' \<in>
     files (process_video_job
              (example_env\<lparr>write_report_error := \<lambda>p. Some ''No space left on device''\<rparr>)
              ''job-1'' ''uploads/job-1.mp4'' example_world)"
proof -
  let ?env = "example_env\<lparr>write_report_error := \<lambda>p. Some ''No space left on device''\<rparr>"
  let ?cs = "[''chunks/job-1/chunk_000.mp4'', ''chunks/job-1/chunk_001.mp4'',
        ''chunks/job-1/chunk_002.mp4'']"
  have ne: "?cs \<noteq> []" by simp
  have wr: "write_report_error ?env (REPORTS_DIR @ ''/'' @ ''job-1'' @ ''_report.txt'') =
      Some ''No space left on device''"
    by simp
  from process_video_job_write_failure [OF example_world_row example_chunks_write_failure ne wr]
  show ?thesis by auto
qed

section \<open>Claims about the request handlers\<close>

text \<open>
  C9. A status query for an id that is not in the store gives the 404 response
  \<open>Job not found\<close>. When \<open>delete_job\<close> answers with success, the job was in the store
  (whatever its status, so also COMPLETE), a status query for its id afterwards gives
  the same 404 response, and the chunk directory of the job no longer exists.
\<close>

theorem unknown_or_deleted_job_not_found:
  "(db w jid = None \<longrightarrow> get_status jid w = Inl (HTTPException 404 ''Job not found'')) \<and>
   (delete_job env jid w = (Inr msg, w') \<longrightarrow>
      db w jid \<noteq> None \<and>
      get_status jid w' = Inl (HTTPException 404 ''Job not found'') \<and>
      \<not> path_exists w' (CHUNKS_DIR @ ''/'' @ jid))"
proof (intro conjI impI)
  assume "db w jid = None"
  then show "get_status jid w = Inl (HTTPException 404 ''Job not found'')"
    by (simp add: get_status_def)
next
  assume del: "delete_job env jid w = (Inr msg, w')"
  then obtain db_job where j: "db w jid = Some db_job"
    by (cases "db w jid") (simp_all add: delete_job_def)
  from del j obtain w2 where fs: "delete_job_files env jid db_job w = Inr w2"
    and w': "w' = w2\<lparr>db := (db w2)(jid := None)\<rparr>"
    by (cases "delete_job_files env jid db_job w")
       (simp_all add: delete_job_def split: prod.splits)
  show "db w jid \<noteq> None" using j by simp
  show "get_status jid w' = Inl (HTTPException 404 ''Job not found'')"
    by (simp add: w' get_status_def)
  from delete_job_files_chunk_dir [OF fs]
  show "\<not> path_exists w' (CHUNKS_DIR @ ''/'' @ jid)"
    by (simp add: w' path_exists_def)
qed

theorem unknown_or_deleted_job_not_found_witness:
  "db example_start ''job-1'' = None \<and>
   get_status ''job-1'' example_start = Inl (HTTPException 404 ''Job not found'') \<and>
   (\<exists>j. db example_done ''job-1'' = Some j \<and> status j = ''COMPLETE'') \<and>
   path_exists example_done ''chunks/job-1'' \<and>
   (\<exists>msg w'. delete_job example_env ''job-1'' example_done = (Inr msg, w') \<and>
      get_status ''job-1'' w' = Inl (HTTPException 404 ''Job not found'') \<and>
      \<not> path_exists w' (CHUNKS_DIR @ ''/'' @ ''job-1''))"
proof -
  have h1: "db example_start ''job-1'' = None" by (simp add: example_start_def)
  have h0: "\<exists>j. db example_done ''job-1'' = Some j \<and> status j = ''COMPLETE''"
    by (simp add: example_done_def)
  have h3: "path_exists example_done ''chunks/job-1''"
    by (simp add: example_done_def path_exists_def)
  obtain r w' where d: "delete_job example_env ''job-1'' example_done = (r, w')"
    by fastforce
  have "fst (delete_job example_env ''job-1'' example_done) = Inr ''Job job-1 deleted successfully''"
    by code_simp
  with d have h2: "delete_job example_env ''job-1'' example_done =
      (Inr ''Job job-1 deleted successfully'', w')" by simp
  from unknown_or_deleted_job_not_found [of example_start "''job-1''"]
    unknown_or_deleted_job_not_found
      [of example_done "''job-1''" example_env "''Job job-1 deleted successfully''" w']
    h1 h2 h0 h3
  show ?thesis by simp
qed


end
